theory Spec2Isabelle
  imports Main "HOL-Library.Sublist"
begin

section \<open>Domain model (src/src/state.py)\<close>

text \<open>
  A \<open>datetime\<close> is modelled by its position on the time line, counted in microseconds
  (the resolution of Python's \<open>datetime\<close>). Subtracting two of them gives a
  \<open>timedelta\<close>, whose \<open>days\<close> attribute is the floor of the difference divided by the
  length of a day; \<open>timedelta(hours=h)\<close> is \<open>h\<close> hours of microseconds.
\<close>

type_synonym datetime = int

definition us_per_day :: int where
  "us_per_day = 86400000000"

definition us_per_hour :: int where
  "us_per_hour = 3600000000"

definition timedelta_days :: "int \<Rightarrow> int" where
  "timedelta_days delta = delta div us_per_day"

definition timedelta_hours :: "int \<Rightarrow> int" where
  "timedelta_hours h = h * us_per_hour"

text \<open>
  The \<open>labels\<close> and \<open>assignees\<close> of the source are lists of two-entry dictionaries
  (\<open>name\<close>/\<open>color\<close> and \<open>login\<close>/\<open>avatar_url\<close>); they are kept as lists of pairs.
\<close>

record Issue =
  number :: int
  title :: string
  state :: string
  created_at :: datetime
  updated_at :: datetime
  html_url :: string
  labels :: "(string \<times> string) list"
  assignees :: "(string \<times> string) list"

text \<open>\<open>Issue.age_days\<close>: \<open>(datetime.now() - self.created_at).days\<close>, with the reading
  of the clock made a parameter.\<close>

definition age_days :: "datetime \<Rightarrow> Issue \<Rightarrow> int" where
  "age_days now issue = timedelta_days (now - created_at issue)"

record PullRequest =
  pr_number :: int
  pr_title :: string
  pr_state :: string
  merged_at :: "datetime option"
  closed_at :: "datetime option"
  pr_html_url :: string
  pr_labels :: "(string \<times> string) list"
  pr_assignees :: "(string \<times> string) list"

text \<open>\<open>PullRequest.is_merged\<close>: \<open>self.merged_at is not None\<close>.\<close>

definition is_merged :: "PullRequest \<Rightarrow> bool" where
  "is_merged pr = (merged_at pr \<noteq> None)"

text \<open>Truth value of an optional datetime in a Python condition: a datetime object is
  always true, \<open>None\<close> is false.\<close>

definition truthy :: "datetime option \<Rightarrow> bool" where
  "truthy d = (case d of None \<Rightarrow> False | Some t \<Rightarrow> True)"

text \<open>
  The state lists \<open>open_issues\<close>, \<open>recent_prs\<close>, \<open>alert_issues\<close> and
  \<open>notification_prs\<close> hold the dictionaries produced by \<open>.dict()\<close>, which the analysis
  stages turn back into models with \<open>Issue(**issue_data)\<close>; a dictionary and the model
  built from it carry the same fields, so the lists are lists of the records.
\<close>

record RepoMonitorState =
  repo_owner :: string
  repo_name :: string
  github_token :: string
  issue_threshold_days :: int
  email_recipients :: "string list"
  open_issues :: "Issue list"
  recent_prs :: "PullRequest list"
  last_email_sent :: "datetime option"
  sent_notifications :: "string list"
  smtp_host :: string
  smtp_port :: int
  email_username :: string
  email_password :: string
  should_send_issue_alert :: bool
  should_send_pr_notification :: bool
  alert_issues :: "Issue list"
  notification_prs :: "PullRequest list"

section \<open>Data source client (src/src/github_client.py)\<close>

text \<open>
  The GitHub API is outside the repository: a call either raises (an error of type \<open>'e\<close>)
  or yields the listed objects. \<open>get_open_issues\<close> copies every listed issue into an
  \<open>Issue\<close> model, field by field.
\<close>

definition copy_issue :: "Issue \<Rightarrow> Issue" where
  "copy_issue issue =
     \<lparr> number = number issue, title = title issue, state = state issue,
       created_at = created_at issue, updated_at = updated_at issue,
       html_url = html_url issue,
       labels = map (\<lambda>label. (fst label, snd label)) (labels issue),
       assignees = map (\<lambda>assignee. (fst assignee, snd assignee)) (assignees issue) \<rparr>"

definition get_open_issues :: "('e + Issue list) \<Rightarrow> 'e + Issue list" where
  "get_open_issues api =
     (case api of Inl e \<Rightarrow> Inl e | Inr listed \<Rightarrow> Inr (map copy_issue listed))"

definition copy_pr :: "PullRequest \<Rightarrow> PullRequest" where
  "copy_pr pr =
     \<lparr> pr_number = pr_number pr, pr_title = pr_title pr, pr_state = pr_state pr,
       merged_at = merged_at pr, closed_at = closed_at pr,
       pr_html_url = pr_html_url pr,
       pr_labels = map (\<lambda>label. (fst label, snd label)) (pr_labels pr),
       pr_assignees = map (\<lambda>assignee. (fst assignee, snd assignee)) (pr_assignees pr) \<rparr>"

text \<open>\<open>d and d >= lookback_time\<close> for an optional datetime \<open>d\<close>.\<close>

definition set_and_since :: "datetime option \<Rightarrow> datetime \<Rightarrow> bool" where
  "set_and_since d lookback_time =
     (case d of None \<Rightarrow> False | Some t \<Rightarrow> lookback_time \<le> t)"

text \<open>The loop of \<open>get_recent_prs\<close> over \<open>repo.get_pulls(state='all')\<close>.\<close>

fun collect_recent_prs :: "datetime \<Rightarrow> PullRequest list \<Rightarrow> PullRequest list" where
  "collect_recent_prs lookback_time [] = []"
| "collect_recent_prs lookback_time (pr # rest) =
     (if set_and_since (merged_at pr) lookback_time
      then copy_pr pr # collect_recent_prs lookback_time rest
      else if set_and_since (closed_at pr) lookback_time \<and> \<not> truthy (merged_at pr)
      then copy_pr pr # collect_recent_prs lookback_time rest
      else collect_recent_prs lookback_time rest)"

definition get_recent_prs ::
  "datetime \<Rightarrow> ('e + PullRequest list) \<Rightarrow> int \<Rightarrow> 'e + PullRequest list" where
  "get_recent_prs now api lookback_hours =
     (case api of
        Inl e \<Rightarrow> Inl e
      | Inr pulls \<Rightarrow>
          (let lookback_time = now - timedelta_hours lookback_hours
           in Inr (collect_recent_prs lookback_time pulls)))"

section \<open>Workflow stages (src/src/workflow.py)\<close>

text \<open>
  The loop of \<open>_analyze_issues_node\<close>. The \<open>age_days\<close> property reads the clock anew
  for every issue; \<open>clock k\<close> is the reading obtained for the issue at position \<open>k\<close>.
\<close>

fun select_alert_issues :: "(nat \<Rightarrow> datetime) \<Rightarrow> nat \<Rightarrow> int \<Rightarrow> Issue list \<Rightarrow> Issue list" where
  "select_alert_issues clock k threshold [] = []"
| "select_alert_issues clock k threshold (issue_data # rest) =
     (if threshold \<le> age_days (clock k) issue_data
      then issue_data # select_alert_issues clock (Suc k) threshold rest
      else select_alert_issues clock (Suc k) threshold rest)"

definition analyze_issues_node :: "(nat \<Rightarrow> datetime) \<Rightarrow> RepoMonitorState \<Rightarrow> RepoMonitorState" where
  "analyze_issues_node clock s =
     (let found = select_alert_issues clock 0 (issue_threshold_days s) (open_issues s)
      in s\<lparr> alert_issues := found, should_send_issue_alert := (0 < length found) \<rparr>)"

text \<open>The loop of \<open>_analyze_prs_node\<close>: \<open>if pr.is_merged or pr.closed_at\<close>.\<close>

fun select_notification_prs :: "PullRequest list \<Rightarrow> PullRequest list" where
  "select_notification_prs [] = []"
| "select_notification_prs (pr_data # rest) =
     (if is_merged pr_data \<or> truthy (closed_at pr_data)
      then pr_data # select_notification_prs rest
      else select_notification_prs rest)"

definition analyze_prs_node :: "RepoMonitorState \<Rightarrow> RepoMonitorState" where
  "analyze_prs_node s =
     (let found = select_notification_prs (recent_prs s)
      in s\<lparr> notification_prs := found, should_send_pr_notification := (0 < length found) \<rparr>)"

text \<open>\<open>_update_state_node\<close>, with the reading of the clock as a parameter.\<close>

definition update_state_node :: "datetime \<Rightarrow> RepoMonitorState \<Rightarrow> RepoMonitorState" where
  "update_state_node now s =
     (let s1 = (if sent_notifications s \<noteq> [] then s\<lparr> last_email_sent := Some now \<rparr> else s)
      in s1\<lparr> should_send_issue_alert := False,
             should_send_pr_notification := False,
             alert_issues := [],
             notification_prs := [] \<rparr>)"

text \<open>
  The notification sink (\<open>EmailService\<close>) is outside the workflow: it is called with the
  arguments below and answers with a boolean. The two public methods are the two kinds of
  call.
\<close>

datatype sink_call =
    IssueAlert "string list" "Issue list" string string int
  | PrNotification "string list" "PullRequest list" string string

text \<open>
  The send stages return the calls they made to the sink together with the state.
  \<open>isoformat\<close> is the library's rendering of a datetime, a parameter here.
\<close>

definition send_issue_alert_node ::
  "(sink_call \<Rightarrow> bool) \<Rightarrow> (datetime \<Rightarrow> string) \<Rightarrow> datetime \<Rightarrow> RepoMonitorState
     \<Rightarrow> sink_call list \<times> RepoMonitorState" where
  "send_issue_alert_node deliver isoformat now s =
     (let repo_url = ''https://github.com/'' @ repo_owner s @ ''/'' @ repo_name s;
          call = IssueAlert (email_recipients s) (alert_issues s) (repo_name s) repo_url
                   (issue_threshold_days s);
          success = deliver call
      in ([call],
          if success
          then s\<lparr> sent_notifications := sent_notifications s @ [''issue_alert_'' @ isoformat now] \<rparr>
          else s))"

definition send_pr_notification_node ::
  "(sink_call \<Rightarrow> bool) \<Rightarrow> (datetime \<Rightarrow> string) \<Rightarrow> datetime \<Rightarrow> RepoMonitorState
     \<Rightarrow> sink_call list \<times> RepoMonitorState" where
  "send_pr_notification_node deliver isoformat now s =
     (let repo_url = ''https://github.com/'' @ repo_owner s @ ''/'' @ repo_name s;
          call = PrNotification (email_recipients s) (notification_prs s) (repo_name s) repo_url;
          success = deliver call
      in ([call],
          if success
          then s\<lparr> sent_notifications := sent_notifications s @ [''pr_notification_'' @ isoformat now] \<rparr>
          else s))"

text \<open>
  \<open>_fetch_data_node\<close> assigns \<open>state.open_issues\<close> before it asks for the pull requests.
  An exception leaves the stage with the state object as it is at that point, so a raise
  is the error paired with that state.
\<close>

definition fetch_data_node ::
  "('e + Issue list) \<Rightarrow> ('e + PullRequest list) \<Rightarrow> int \<Rightarrow> datetime \<Rightarrow> RepoMonitorState
     \<Rightarrow> ('e \<times> RepoMonitorState) + RepoMonitorState" where
  "fetch_data_node issues_api pulls_api lookback_hours now s =
     (case get_open_issues issues_api of
        Inl e \<Rightarrow> Inl (e, s)
      | Inr issues \<Rightarrow>
          (let s1 = s\<lparr> open_issues := issues \<rparr>
           in case get_recent_prs now pulls_api lookback_hours of
                Inl e \<Rightarrow> Inl (e, s1)
              | Inr prs \<Rightarrow> Inr (s1\<lparr> recent_prs := prs \<rparr>)))"

text \<open>The two routing functions of the conditional edges.\<close>

definition should_send_issue_alert_edge :: "RepoMonitorState \<Rightarrow> string" where
  "should_send_issue_alert_edge s = (if should_send_issue_alert s then ''send_alert'' else ''skip'')"

definition should_send_pr_notification_edge :: "RepoMonitorState \<Rightarrow> string" where
  "should_send_pr_notification_edge s =
     (if should_send_pr_notification s then ''send_notification'' else ''skip'')"

section \<open>The workflow graph (\<open>_create_workflow\<close>)\<close>

datatype node =
    FetchData | AnalyzeIssues | AnalyzePrs | SendIssueAlert | SendPrNotification | UpdateState

text \<open>
  The edges leaving a stage, evaluated on the state the stage returned. The edge from
  \<open>update_state\<close> to the end marker schedules nothing.
\<close>

fun successors :: "node \<Rightarrow> RepoMonitorState \<Rightarrow> node list" where
  "successors FetchData s = [AnalyzeIssues, AnalyzePrs]"
| "successors AnalyzeIssues s =
     (case map_of [(''send_alert'', SendIssueAlert), (''skip'', UpdateState)]
             (should_send_issue_alert_edge s) of
        None \<Rightarrow> [] | Some n \<Rightarrow> [n])"
| "successors AnalyzePrs s =
     (case map_of [(''send_notification'', SendPrNotification), (''skip'', UpdateState)]
             (should_send_pr_notification_edge s) of
        None \<Rightarrow> [] | Some n \<Rightarrow> [n])"
| "successors SendIssueAlert s = [UpdateState]"
| "successors SendPrNotification s = [UpdateState]"
| "successors UpdateState s = []"

text \<open>
  What a cycle is given from outside: the configured lookback, the answers of the data
  source and of the sink, the readings of the clock, and the error with which the graph
  library refuses a step (its \<open>InvalidUpdateError\<close>). \<open>stage_clock k\<close> is the reading
  a stage obtains when \<open>k\<close> stages have run before it, \<open>issue_clock j\<close> the reading
  obtained while the issue at position \<open>j\<close> is examined.
\<close>

record 'e world =
  pr_lookback_hours :: int
  issues_api :: "'e + Issue list"
  pulls_api :: "'e + PullRequest list"
  deliver :: "sink_call \<Rightarrow> bool"
  isoformat :: "datetime \<Rightarrow> string"
  stage_clock :: "nat \<Rightarrow> datetime"
  issue_clock :: "nat \<Rightarrow> datetime"
  invalid_update :: 'e

text \<open>
  A stage called on a state object: it returns the object with the calls it made to the
  sink, or raises, leaving the object as far as it had assigned to it.
\<close>

fun run_node ::
  "'e world \<Rightarrow> nat \<Rightarrow> node \<Rightarrow> RepoMonitorState
     \<Rightarrow> ('e \<times> RepoMonitorState) + (sink_call list \<times> RepoMonitorState)" where
  "run_node w k FetchData s =
     (case fetch_data_node (issues_api w) (pulls_api w) (pr_lookback_hours w) (stage_clock w k) s of
        Inl failure \<Rightarrow> Inl failure
      | Inr s' \<Rightarrow> Inr ([], s'))"
| "run_node w k AnalyzeIssues s = Inr ([], analyze_issues_node (issue_clock w) s)"
| "run_node w k AnalyzePrs s = Inr ([], analyze_prs_node s)"
| "run_node w k SendIssueAlert s =
     Inr (send_issue_alert_node (deliver w) (isoformat w) (stage_clock w k) s)"
| "run_node w k SendPrNotification s =
     Inr (send_pr_notification_node (deliver w) (isoformat w) (stage_clock w k) s)"
| "run_node w k UpdateState s = Inr ([], update_state_node (stage_clock w k) s)"

text \<open>
  A cycle in progress: the stages scheduled for the next step, the state the graph holds,
  the stages run so far in order, the calls made to the sink, and the exception that
  ended the cycle, if any.
\<close>

record 'e cycle =
  pending :: "node list"
  current :: RepoMonitorState
  executed :: "node list"
  sink_calls :: "sink_call list"
  raised :: "'e option"

definition start_cycle :: "RepoMonitorState \<Rightarrow> 'e cycle" where
  "start_cycle s =
     \<lparr> pending = [FetchData], current = s, executed = [], sink_calls = [], raised = None \<rparr>"

text \<open>The cycle when \<open>fetch_data\<close> has returned the state \<open>s1\<close>.\<close>

definition fetched :: "RepoMonitorState \<Rightarrow> 'e cycle" where
  "fetched s1 =
     \<lparr> pending = [AnalyzeIssues, AnalyzePrs], current = s1, executed = [FetchData],
       sink_calls = [], raised = None \<rparr>"

text \<open>
  The graph is compiled by the graph library, which runs it in steps. All stages
  scheduled for a step run in that step, each on a state object of its own that carries
  the values the graph held when the step began; what a stage assigns to its object
  reaches the graph only through the object it returns. \<open>run_stages\<close> runs the stages
  of one step in the given order and collects what they return; a stage that raises ends
  the cycle with its exception, and what it had assigned is lost with its object.
\<close>

fun run_stages ::
  "'e world \<Rightarrow> RepoMonitorState \<Rightarrow> node list \<Rightarrow> 'e cycle
     \<Rightarrow> (node \<times> RepoMonitorState) list \<Rightarrow> 'e cycle \<times> (node \<times> RepoMonitorState) list" where
  "run_stages w s0 [] c returned = (c, returned)"
| "run_stages w s0 (n # ns) c returned =
     (case run_node w (length (executed c)) n s0 of
        Inl (e, s') \<Rightarrow>
          (c\<lparr> pending := [], executed := executed c @ [n], raised := Some e \<rparr>, returned)
      | Inr (calls, s') \<Rightarrow>
          run_stages w s0 ns
            (c\<lparr> executed := executed c @ [n], sink_calls := sink_calls c @ calls \<rparr>)
            (returned @ [(n, s')]))"

text \<open>
  One step. Every stage of this workflow returns the whole state, that is, a value for
  each of its fields, and the state class declares no field that combines values; the
  library takes one value for such a field in a step. When one stage has returned, its
  state becomes the state of the graph and the edges leaving the stage schedule the next
  step; when more than one has returned, the library raises its \<open>InvalidUpdateError\<close>
  and the cycle ends. The order in which the stages of a step get to run is the
  library's business, so it is a parameter (\<open>pick\<close>) of the run: the scheduled stages
  are taken in their order rotated by \<open>i\<close>.
\<close>

definition exec_step :: "'e world \<Rightarrow> nat \<Rightarrow> 'e cycle \<Rightarrow> 'e cycle" where
  "exec_step w i c =
     (case run_stages w (current c) (rotate i (pending c)) c [] of
        (c', returned) \<Rightarrow>
          (case raised c' of
             Some e \<Rightarrow> c'\<lparr> pending := [] \<rparr>
           | None \<Rightarrow>
               (case returned of
                  [] \<Rightarrow> c'\<lparr> pending := [] \<rparr>
                | (n, s') # others \<Rightarrow>
                    (if others = []
                     then c'\<lparr> pending := successors n s', current := s' \<rparr>
                     else c'\<lparr> pending := [], raised := Some (invalid_update w) \<rparr>))))"

fun rank :: "node \<Rightarrow> nat" where
  "rank FetchData = 7"
| "rank AnalyzeIssues = 3"
| "rank AnalyzePrs = 3"
| "rank SendIssueAlert = 2"
| "rank SendPrNotification = 2"
| "rank UpdateState = 1"

definition weight :: "node list \<Rightarrow> nat" where
  "weight ns = sum_list (map rank ns)"

lemma rank_pos: "0 < rank n"
  by (cases n) simp_all

lemma weight_successors: "weight (successors n s) < rank n"
  by (cases n)
     (simp_all add: weight_def should_send_issue_alert_edge_def
        should_send_pr_notification_edge_def)

lemma weight_member: "n \<in> set ns \<Longrightarrow> rank n \<le> weight ns"
  unfolding weight_def by (induction ns) auto

lemma weight_pos: "ns \<noteq> [] \<Longrightarrow> 0 < weight ns"
  unfolding weight_def by (cases ns) (simp_all add: rank_pos)

lemma run_stages_returned:
  "fst ` set (snd (run_stages w s0 ns c returned)) \<subseteq> fst ` set returned \<union> set ns"
proof (induction ns arbitrary: c returned)
  case Nil
  show ?case by simp
next
  case (Cons n ns)
  show ?case
  proof (cases "run_node w (length (executed c)) n s0")
    case (Inl failure)
    then show ?thesis
      by (cases failure) auto
  next
    case (Inr result)
    obtain calls s' where result: "result = (calls, s')"
      by (cases result)
    from Cons.IH [of "c\<lparr> executed := executed c @ [n], sink_calls := sink_calls c @ calls \<rparr>"
                     "returned @ [(n, s')]"]
    show ?thesis
      using Inr result by auto
  qed
qed

lemma weight_exec_step:
  assumes "pending c \<noteq> []"
  shows "weight (pending (exec_step w i c)) < weight (pending c)"
proof -
  obtain c' returned where r: "run_stages w (current c) (rotate i (pending c)) c [] = (c', returned)"
    by (cases "run_stages w (current c) (rotate i (pending c)) c []")
  have pos: "0 < weight (pending c)"
    using assms by (rule weight_pos)
  show ?thesis
  proof (cases "raised c'")
    case (Some e)
    with r pos show ?thesis
      by (simp add: exec_step_def weight_def)
  next
    case None
    show ?thesis
    proof (cases returned)
      case Nil
      with r None pos show ?thesis
        by (simp add: exec_step_def weight_def)
    next
      case (Cons first others)
      obtain n s' where first: "first = (n, s')"
        by (cases first)
      show ?thesis
      proof (cases "others = []")
        case True
        have "n \<in> fst ` set (snd (run_stages w (current c) (rotate i (pending c)) c []))"
          using r Cons first by simp
        then have "n \<in> set (pending c)"
          using run_stages_returned [of w "current c" "rotate i (pending c)" c "[]"] by auto
        then have "rank n \<le> weight (pending c)"
          by (rule weight_member)
        with weight_successors [of n s'] r None Cons first True show ?thesis
          by (simp add: exec_step_def)
      next
        case False
        with r None Cons first pos show ?thesis
          by (simp add: exec_step_def weight_def)
      qed
    qed
  qed
qed

function drain :: "'e world \<Rightarrow> ('e cycle \<Rightarrow> nat) \<Rightarrow> 'e cycle \<Rightarrow> 'e cycle" where
  "drain w pick c =
     (if pending c = [] then c
      else drain w pick (exec_step w (pick c) c))"
  by pat_completeness auto
termination
proof (relation "measure (\<lambda>(w, pick, c). weight (pending c))")
  show "wf (measure (\<lambda>(w, pick, c). weight (pending c)))"
    by simp
next
  fix w :: "'e world" and pick :: "'e cycle \<Rightarrow> nat" and c :: "'e cycle"
  assume "pending c \<noteq> []"
  then show "((w, pick, exec_step w (pick c) c), (w, pick, c))
               \<in> measure (\<lambda>(w, pick, c). weight (pending c))"
    by (simp add: weight_exec_step)
qed

declare drain.simps [simp del]

text \<open>\<open>RepoMonitorWorkflow.run\<close>: the final state, or the exception that left the graph.\<close>

definition run ::
  "'e world \<Rightarrow> ('e cycle \<Rightarrow> nat) \<Rightarrow> RepoMonitorState \<Rightarrow> 'e + RepoMonitorState" where
  "run w pick initial_state =
     (let c = drain w pick (start_cycle initial_state)
      in case raised c of Some e \<Rightarrow> Inl e | None \<Rightarrow> Inr (current c))"

section \<open>Configuration and entry point (src/src/config_manager.py, src/main.py)\<close>

record config =
  cfg_owner :: string
  cfg_name :: string
  cfg_token :: string
  cfg_issue_threshold_days :: int
  cfg_check_interval_hours :: int
  cfg_pr_lookback_hours :: int
  cfg_smtp_host :: string
  cfg_smtp_port :: int
  cfg_username :: string
  cfg_password :: string
  cfg_recipients :: "string list"

text \<open>\<open>ConfigManager.create_initial_state\<close>; the fields it does not pass take the
  defaults of the dataclass.\<close>

definition create_initial_state :: "config \<Rightarrow> RepoMonitorState" where
  "create_initial_state cfg =
     \<lparr> repo_owner = cfg_owner cfg,
       repo_name = cfg_name cfg,
       github_token = cfg_token cfg,
       issue_threshold_days = cfg_issue_threshold_days cfg,
       email_recipients = cfg_recipients cfg,
       open_issues = [],
       recent_prs = [],
       last_email_sent = None,
       sent_notifications = [],
       smtp_host = cfg_smtp_host cfg,
       smtp_port = cfg_smtp_port cfg,
       email_username = cfg_username cfg,
       email_password = cfg_password cfg,
       should_send_issue_alert = False,
       should_send_pr_notification = False,
       alert_issues = [],
       notification_prs = [] \<rparr>"







section \<open>Sample data\<close>

text \<open>
  The issues and pull requests of the repository's own test script (test_agent.py), seen
  at a moment ten days after the origin of the time line: the old issue was created ten
  days before, the recent one three days before; one pull request was merged two hours
  before, one closed without merge one hour before. Two more pull requests: one still
  open, and one whose merge lies ten days back while its \<open>closed_at\<close> is one hour old.
\<close>

definition old_issue :: Issue where
  "old_issue =
     \<lparr> number = 1, title = ''Test Issue - Old'', state = ''open'',
       created_at = 0, updated_at = 691200000000,
       html_url = ''https://github.com/test/repo/issues/1'',
       labels = [(''bug'', ''d73a4a'')],
       assignees = [(''testuser'', ''https://example.com/avatar.png'')] \<rparr>"


definition merged_pr :: PullRequest where
  "merged_pr =
     \<lparr> pr_number = 10, pr_title = ''Test PR - Merged'', pr_state = ''closed'',
       merged_at = Some 856800000000, closed_at = Some 856800000000,
       pr_html_url = ''https://github.com/test/repo/pull/10'',
       pr_labels = [(''feature'', ''a2eeef'')],
       pr_assignees = [(''devuser'', ''https://example.com/avatar2.png'')] \<rparr>"

definition closed_pr :: PullRequest where
  "closed_pr =
     \<lparr> pr_number = 11, pr_title = ''Test PR - Closed'', pr_state = ''closed'',
       merged_at = None, closed_at = Some 860400000000,
       pr_html_url = ''https://github.com/test/repo/pull/11'',
       pr_labels = [], pr_assignees = [] \<rparr>"

definition open_pr :: PullRequest where
  "open_pr =
     \<lparr> pr_number = 12, pr_title = ''Test PR - Open'', pr_state = ''open'',
       merged_at = None, closed_at = None,
       pr_html_url = ''https://github.com/test/repo/pull/12'',
       pr_labels = [], pr_assignees = [] \<rparr>"

definition late_closed_pr :: PullRequest where
  "late_closed_pr =
     \<lparr> pr_number = 13, pr_title = ''Merged long ago'', pr_state = ''closed'',
       merged_at = Some 0, closed_at = Some 860400000000,
       pr_html_url = ''https://github.com/test/repo/pull/13'',
       pr_labels = [], pr_assignees = [] \<rparr>"

definition test_config :: config where
  "test_config =
     \<lparr> cfg_owner = ''test-org'', cfg_name = ''test-repo'', cfg_token = ''test-token'',
       cfg_issue_threshold_days = 7, cfg_check_interval_hours = 6,
       cfg_pr_lookback_hours = 24,
       cfg_smtp_host = ''smtp.gmail.com'', cfg_smtp_port = 587,
       cfg_username = ''agent@example.com'', cfg_password = ''secret'',
       cfg_recipients = [''test@example.com''] \<rparr>"

definition test_state :: RepoMonitorState where
  "test_state = create_initial_state test_config"


definition rehydrated_state :: RepoMonitorState where
  "rehydrated_state =
     test_state\<lparr> sent_notifications := [''issue_alert_2024-01-01T00:00:00''],
                 last_email_sent := Some 0 \<rparr>"

definition pulls_down_world :: "string world" where
  "pulls_down_world =
     \<lparr> pr_lookback_hours = 24,
       issues_api = Inr [old_issue],
       pulls_api = Inl ''SourceUnavailable'',
       deliver = (\<lambda>call. True),
       isoformat = (\<lambda>t. ''2024-01-11T00:00:00''),
       stage_clock = (\<lambda>k. 864000000000 + int k),
       issue_clock = (\<lambda>j. 864000000000),
       invalid_update = ''InvalidUpdateError'' \<rparr>"


definition refusing_world :: "string world" where
  "refusing_world =
     \<lparr> pr_lookback_hours = 24,
       issues_api = Inr [old_issue],
       pulls_api = Inr [],
       deliver = (\<lambda>call. False),
       isoformat = (\<lambda>t. ''2024-01-11T00:00:00''),
       stage_clock = (\<lambda>k. 864000000000 + int k),
       issue_clock = (\<lambda>j. 864000000000),
       invalid_update = ''InvalidUpdateError'' \<rparr>"

section \<open>The selection loops as filters\<close>

lemma copy_issue_id: "copy_issue issue = issue"
  by (simp add: copy_issue_def)

lemma copy_pr_id: "copy_pr pr = pr"
  by (simp add: copy_pr_def)


lemma select_notification_prs_filter:
  "select_notification_prs prs =
     filter (\<lambda>pr. (\<exists>t. merged_at pr = Some t) \<or> (\<exists>t. closed_at pr = Some t)) prs"
  by (induction prs) (auto simp: is_merged_def truthy_def split: option.splits)

lemma collect_recent_prs_filter:
  "collect_recent_prs lookback_time pulls =
     filter (\<lambda>pr. (\<exists>m. merged_at pr = Some m \<and> lookback_time \<le> m) \<or>
                  (merged_at pr = None \<and> (\<exists>c. closed_at pr = Some c \<and> lookback_time \<le> c)))
       pulls"
  by (induction pulls)
     (auto simp: copy_pr_id set_and_since_def truthy_def split: option.splits)

lemma collect_recent_prs_present:
  "pr \<in> set (collect_recent_prs lookback_time pulls) \<Longrightarrow>
     (\<exists>t. merged_at pr = Some t) \<or> (\<exists>t. closed_at pr = Some t)"
  by (auto simp: collect_recent_prs_filter)

lemma collect_recent_prs_reportable:
  "pr \<in> set (collect_recent_prs lookback_time pulls) \<Longrightarrow>
     is_merged pr \<or> truthy (closed_at pr)"
  by (auto simp: collect_recent_prs_filter is_merged_def truthy_def)

lemma select_notification_prs_all:
  "(\<And>pr. pr \<in> set prs \<Longrightarrow> is_merged pr \<or> truthy (closed_at pr)) \<Longrightarrow>
     select_notification_prs prs = prs"
  by (induction prs) auto

section \<open>Running the graph\<close>

lemma drain_done: "pending c = [] \<Longrightarrow> drain w pick c = c"
  by (subst drain.simps) simp

lemma drain_step:
  "pending c \<noteq> [] \<Longrightarrow> drain w pick c = drain w pick (exec_step w (pick c) c)"
  by (subst drain.simps) simp

lemma fetch_data_node_raised:
  assumes "fetch_data_node issues_result pulls_result lookback_hours now s = Inl (e, s')"
  shows "case issues_result of
           Inl e1 \<Rightarrow> e = e1 \<and> s' = s
         | Inr listed \<Rightarrow> pulls_result = Inl e \<and> s' = s\<lparr> open_issues := listed \<rparr>"
  using assms
  by (auto simp: fetch_data_node_def get_open_issues_def get_recent_prs_def Let_def
        copy_issue_id map_idI split: sum.splits)

lemma fetch_data_node_source_raises:
  assumes "issues_result = Inl e \<or> (issues_result = Inr listed \<and> pulls_result = Inl e)"
  shows "fetch_data_node issues_result pulls_result lookback_hours now s =
           Inl (e, case issues_result of Inl e1 \<Rightarrow> s | Inr l \<Rightarrow> s\<lparr> open_issues := l \<rparr>)"
  using assms
  by (auto simp: fetch_data_node_def get_open_issues_def get_recent_prs_def Let_def
        copy_issue_id map_idI)


subsection \<open>A fetch that raises\<close>

lemma exec_step_fetch_raised:
  assumes "fetch_data_node (issues_api w) (pulls_api w) (pr_lookback_hours w) (stage_clock w 0) s
             = Inl (e, s')"
  shows "exec_step w i (start_cycle s) =
           \<lparr> pending = [], current = s, executed = [FetchData], sink_calls = [],
             raised = Some e \<rparr>"
  using assms by (simp add: exec_step_def start_cycle_def)

lemma drain_fetch_raised:
  assumes "fetch_data_node (issues_api w) (pulls_api w) (pr_lookback_hours w) (stage_clock w 0) s
             = Inl (e, s')"
  shows "drain w pick (start_cycle s) =
           \<lparr> pending = [], current = s, executed = [FetchData], sink_calls = [],
             raised = Some e \<rparr>"
proof -
  have "drain w pick (start_cycle s)
          = drain w pick (exec_step w (pick (start_cycle s)) (start_cycle s))"
    by (rule drain_step) (simp add: start_cycle_def)
  also have "\<dots> = drain w pick \<lparr> pending = [], current = s, executed = [FetchData],
                       sink_calls = [], raised = Some e \<rparr>"
    by (simp only: exec_step_fetch_raised [OF assms])
  also have "\<dots> = \<lparr> pending = [], current = s, executed = [FetchData],
                       sink_calls = [], raised = Some e \<rparr>"
    by (rule drain_done) simp
  finally show ?thesis .
qed

lemma run_fetch_raised:
  assumes "fetch_data_node (issues_api w) (pulls_api w) (pr_lookback_hours w) (stage_clock w 0) s
             = Inl (e, s')"
  shows "run w pick s = Inl e"
  unfolding run_def drain_fetch_raised [OF assms] by simp

subsection \<open>A fetch that returns\<close>





subsection \<open>The sample fetches, evaluated\<close>

lemma pulls_down_fetch:
  "fetch_data_node (issues_api pulls_down_world) (pulls_api pulls_down_world)
       (pr_lookback_hours pulls_down_world) (stage_clock pulls_down_world 0) test_state
     = Inl (''SourceUnavailable'', test_state\<lparr> open_issues := [old_issue] \<rparr>)"
  by (simp add: pulls_down_world_def fetch_data_node_def get_open_issues_def
        get_recent_prs_def Let_def copy_issue_id)


lemma refusing_fetch:
  "fetch_data_node (issues_api refusing_world) (pulls_api refusing_world)
       (pr_lookback_hours refusing_world) (stage_clock refusing_world 0) test_state
     = Inr (test_state\<lparr> open_issues := [old_issue], recent_prs := [] \<rparr>)"
  by (simp add: refusing_world_def fetch_data_node_def get_open_issues_def
        get_recent_prs_def Let_def copy_issue_id)


section \<open>Issue analysis\<close>



section \<open>Pull-request analysis\<close>

text \<open>
  Claim C3. \<open>analyze_prs\<close> selects exactly the fetched pull requests that are merged
  (\<open>merged_at\<close> present) or have \<open>closed_at\<close> present, so one with neither is never
  selected and one closed without merge is; the should-notify flag is set iff the
  selection is not empty.
\<close>

theorem analyze_prs_node_selects_reportable:
  "notification_prs (analyze_prs_node s) =
     filter (\<lambda>pr. (\<exists>t. merged_at pr = Some t) \<or> (\<exists>t. closed_at pr = Some t)) (recent_prs s)
   \<and> is_merged pr = (\<exists>t. merged_at pr = Some t)
   \<and> should_send_pr_notification (analyze_prs_node s) =
       (notification_prs (analyze_prs_node s) \<noteq> [])"
  by (auto simp add: analyze_prs_node_def Let_def select_notification_prs_filter is_merged_def)

theorem analyze_prs_node_selects_reportable_witness:
  "notification_prs (analyze_prs_node (test_state\<lparr> recent_prs := [merged_pr, open_pr, closed_pr] \<rparr>))
     = [merged_pr, closed_pr]
   \<and> is_merged merged_pr \<and> \<not> is_merged closed_pr
   \<and> should_send_pr_notification
        (analyze_prs_node (test_state\<lparr> recent_prs := [merged_pr, open_pr, closed_pr] \<rparr>))"
  using analyze_prs_node_selects_reportable
          [of "test_state\<lparr> recent_prs := [merged_pr, open_pr, closed_pr] \<rparr>" merged_pr]
        analyze_prs_node_selects_reportable
          [of "test_state\<lparr> recent_prs := [merged_pr, open_pr, closed_pr] \<rparr>" closed_pr]
  by (simp add: test_state_def test_config_def create_initial_state_def merged_pr_def
        closed_pr_def open_pr_def)

section \<open>The lookback window of \<open>get_recent_prs\<close>\<close>

text \<open>
  Claim C8, as stated: a pull request whose \<open>merged_at\<close> is outside the window and whose
  \<open>closed_at\<close> is inside it is returned. It is not: with a 24-hour window, the pull
  request merged ten days ago and carrying a \<open>closed_at\<close> of one hour ago has its
  \<open>closed_at\<close> inside the window and is left out.
\<close>

theorem get_recent_prs_late_close_counterexample:
  "set_and_since (closed_at late_closed_pr) (864000000000 - timedelta_hours 24)
   \<and> get_recent_prs 864000000000 (Inr [late_closed_pr] :: unit + PullRequest list) 24 = Inr []"
  by (simp add: get_recent_prs_def late_closed_pr_def set_and_since_def truthy_def
        timedelta_hours_def us_per_hour_def)

text \<open>
  Claim C8, amended. \<open>get_recent_prs\<close> returns, in listing order, exactly the pull
  requests whose \<open>merged_at\<close> is present and not earlier than the call time minus the
  lookback, or whose \<open>merged_at\<close> is absent and whose \<open>closed_at\<close> is present and not
  earlier than that instant; an error of the listing is passed on.
\<close>

theorem get_recent_prs_window:
  "get_recent_prs now (Inr pulls :: 'e + PullRequest list) lookback_hours =
     Inr (filter
            (\<lambda>pr. (\<exists>m. merged_at pr = Some m \<and> now - lookback_hours * 3600000000 \<le> m) \<or>
                   (merged_at pr = None \<and>
                    (\<exists>c. closed_at pr = Some c \<and> now - lookback_hours * 3600000000 \<le> c)))
            pulls)
   \<and> get_recent_prs now (Inl e :: 'e + PullRequest list) lookback_hours = Inl e"
  by (simp add: get_recent_prs_def Let_def collect_recent_prs_filter timedelta_hours_def
        us_per_hour_def)

theorem get_recent_prs_window_witness:
  "get_recent_prs 864000000000
     (Inr [merged_pr, closed_pr, open_pr, late_closed_pr] :: unit + PullRequest list) 24
     = Inr [merged_pr, closed_pr]
   \<and> get_recent_prs 864000000000
     (Inr [merged_pr, closed_pr] :: unit + PullRequest list) 1 = Inr [closed_pr]"
  using get_recent_prs_window
          [of "864000000000" "[merged_pr, closed_pr, open_pr, late_closed_pr]" 24 "()"]
        get_recent_prs_window [of "864000000000" "[merged_pr, closed_pr]" 1 "()"]
  by (simp add: merged_pr_def closed_pr_def open_pr_def late_closed_pr_def)

section \<open>Every fetched pull request is reportable\<close>

text \<open>
  Claim C10. When \<open>fetch_data\<close> returns, the pull requests it stored are those
  \<open>get_recent_prs\<close> returned, each has \<open>merged_at\<close> or \<open>closed_at\<close> present, and
  \<open>analyze_prs\<close> on that state selects all of them and sets the should-notify flag iff
  the fetched list is not empty.
\<close>

theorem fetched_prs_all_selected:
  assumes "fetch_data_node issues_result pulls_result lookback_hours now s = Inr s'"
  shows "(\<exists>prs. get_recent_prs now pulls_result lookback_hours = Inr prs \<and> recent_prs s' = prs
            \<and> list_all (\<lambda>pr. (\<exists>t. merged_at pr = Some t) \<or> (\<exists>t. closed_at pr = Some t)) prs)
         \<and> notification_prs (analyze_prs_node s') = recent_prs s'
         \<and> should_send_pr_notification (analyze_prs_node s') = (recent_prs s' \<noteq> [])"
proof -
  from assms obtain issues prs where
    prs: "get_recent_prs now pulls_result lookback_hours = Inr prs" and
    s': "s' = s\<lparr> open_issues := issues, recent_prs := prs \<rparr>"
    by (auto simp: fetch_data_node_def Let_def split: sum.splits)
  from prs obtain pulls where
    pulls: "prs = collect_recent_prs (now - timedelta_hours lookback_hours) pulls"
    by (auto simp: get_recent_prs_def Let_def split: sum.splits)
  then have rep: "\<And>pr. pr \<in> set prs \<Longrightarrow> is_merged pr \<or> truthy (closed_at pr)"
    by (simp add: collect_recent_prs_reportable)
  then have sel: "select_notification_prs prs = prs"
    by (rule select_notification_prs_all)
  have "list_all (\<lambda>pr. (\<exists>t. merged_at pr = Some t) \<or> (\<exists>t. closed_at pr = Some t)) prs"
    unfolding list_all_iff pulls using collect_recent_prs_present by blast
  with prs s' sel show ?thesis
    by (simp add: analyze_prs_node_def Let_def)
qed

theorem fetched_prs_all_selected_witness:
  "fetch_data_node (Inr [old_issue] :: unit + Issue list)
       (Inr [merged_pr, open_pr, closed_pr]) 24 864000000000 test_state
     = Inr (test_state\<lparr> open_issues := [old_issue], recent_prs := [merged_pr, closed_pr] \<rparr>)
   \<and> notification_prs
        (analyze_prs_node
           (test_state\<lparr> open_issues := [old_issue], recent_prs := [merged_pr, closed_pr] \<rparr>))
       = [merged_pr, closed_pr]
   \<and> should_send_pr_notification
        (analyze_prs_node
           (test_state\<lparr> open_issues := [old_issue], recent_prs := [merged_pr, closed_pr] \<rparr>))"
proof -
  have fetched:
    "fetch_data_node (Inr [old_issue] :: unit + Issue list)
         (Inr [merged_pr, open_pr, closed_pr]) 24 864000000000 test_state
       = Inr (test_state\<lparr> open_issues := [old_issue], recent_prs := [merged_pr, closed_pr] \<rparr>)"
    by (simp add: fetch_data_node_def get_open_issues_def get_recent_prs_def Let_def
          copy_issue_id copy_pr_id set_and_since_def truthy_def timedelta_hours_def
          us_per_hour_def merged_pr_def closed_pr_def open_pr_def)
  from fetched_prs_all_selected [OF fetched] fetched show ?thesis
    by simp
qed

section \<open>What finalization resets\<close>

text \<open>
  Claim C4, as stated: after \<open>update_state\<close> the fetched issues and the fetched pull
  requests are empty. They are not: a state holding one fetched issue (one fetched pull
  request) still holds it afterwards.
\<close>

theorem update_state_node_keeps_fetched_counterexample:
  "open_issues (update_state_node 864000000000 (test_state\<lparr> open_issues := [old_issue] \<rparr>)) \<noteq> []
   \<and> recent_prs (update_state_node 864000000000 (test_state\<lparr> recent_prs := [merged_pr] \<rparr>)) \<noteq> []"
  by (simp add: update_state_node_def)

text \<open>
  Claim C4, amended. After \<open>update_state\<close> the two decision flags are false and the
  alert-issues and notification-PRs lists are empty; the fetched issues and fetched pull
  requests are as they were; the identity and configuration fields and
  \<open>sent_notifications\<close> are as they were, and \<open>last_email_sent\<close> is either as it was or
  the current time, never cleared.
\<close>

theorem update_state_node_resets_flags:
  "should_send_issue_alert (update_state_node now s) = False
   \<and> should_send_pr_notification (update_state_node now s) = False
   \<and> alert_issues (update_state_node now s) = []
   \<and> notification_prs (update_state_node now s) = []
   \<and> open_issues (update_state_node now s) = open_issues s
   \<and> recent_prs (update_state_node now s) = recent_prs s
   \<and> repo_owner (update_state_node now s) = repo_owner s
   \<and> repo_name (update_state_node now s) = repo_name s
   \<and> github_token (update_state_node now s) = github_token s
   \<and> issue_threshold_days (update_state_node now s) = issue_threshold_days s
   \<and> email_recipients (update_state_node now s) = email_recipients s
   \<and> smtp_host (update_state_node now s) = smtp_host s
   \<and> smtp_port (update_state_node now s) = smtp_port s
   \<and> email_username (update_state_node now s) = email_username s
   \<and> email_password (update_state_node now s) = email_password s
   \<and> sent_notifications (update_state_node now s) = sent_notifications s
   \<and> last_email_sent (update_state_node now s) =
       (if sent_notifications s = [] then last_email_sent s else Some now)"
  by (simp add: update_state_node_def)

theorem update_state_node_resets_flags_witness:
  "alert_issues (update_state_node 864000000000
      (test_state\<lparr> open_issues := [old_issue], alert_issues := [old_issue],
         should_send_issue_alert := True \<rparr>)) = []
   \<and> open_issues (update_state_node 864000000000
      (test_state\<lparr> open_issues := [old_issue], alert_issues := [old_issue],
         should_send_issue_alert := True \<rparr>)) = [old_issue]
   \<and> \<not> should_send_issue_alert (update_state_node 864000000000
      (test_state\<lparr> open_issues := [old_issue], alert_issues := [old_issue],
         should_send_issue_alert := True \<rparr>))"
  using update_state_node_resets_flags
          [of "864000000000" "test_state\<lparr> open_issues := [old_issue], alert_issues := [old_issue],
             should_send_issue_alert := True \<rparr>"]
  by simp

section \<open>Finalization entered twice\<close>

text \<open>
  Claim C7. Entering \<open>update_state\<close> twice at the same current time gives the same state
  as entering it once.
\<close>

theorem update_state_node_idempotent:
  "update_state_node now (update_state_node now s) = update_state_node now s"
  by (simp add: update_state_node_def)

section \<open>A failing fetch\<close>

text \<open>
  Claim C6. When the data source raises during \<open>fetch_data\<close>, be it on the issue listing
  or, the issue listing having answered, on the pull-request listing, the workflow ends
  with that same error; \<open>fetch_data\<close> is the only stage that has executed, so no
  analysis stage and no send stage has run and nothing has been handed to the
  notification sink; and the state is in every field, \<open>sent_notifications\<close> among them,
  the state the cycle started with.
\<close>

theorem fetch_failure_propagates_unchanged:
  assumes "issues_api w = Inl e \<or> (issues_api w = Inr listed \<and> pulls_api w = Inl e)"
  shows "run w pick s = Inl e
         \<and> drain w pick (start_cycle s) =
             \<lparr> pending = [], current = s, executed = [FetchData], sink_calls = [],
               raised = Some e \<rparr>"
proof -
  have f: "fetch_data_node (issues_api w) (pulls_api w) (pr_lookback_hours w) (stage_clock w 0) s
        = Inl (e, case issues_api w of Inl e1 \<Rightarrow> s | Inr l \<Rightarrow> s\<lparr> open_issues := l \<rparr>)"
    using assms by (rule fetch_data_node_source_raises)
  show ?thesis
    using run_fetch_raised [OF f] drain_fetch_raised [OF f] by simp
qed

theorem fetch_failure_propagates_unchanged_witness:
  "pulls_api pulls_down_world = Inl ''SourceUnavailable''
   \<and> run pulls_down_world (\<lambda>c. 0) test_state = Inl ''SourceUnavailable''
   \<and> executed (drain pulls_down_world (\<lambda>c. 0) (start_cycle test_state)) = [FetchData]
   \<and> sink_calls (drain pulls_down_world (\<lambda>c. 0) (start_cycle test_state)) = []
   \<and> current (drain pulls_down_world (\<lambda>c. 0) (start_cycle test_state)) = test_state"
  using fetch_failure_propagates_unchanged
          [where w = pulls_down_world and e = "''SourceUnavailable''" and listed = "[old_issue]"
             and pick = "\<lambda>c. 0" and s = test_state]
  by (simp add: pulls_down_world_def)

section \<open>The send stages\<close>



section \<open>When finalization stamps the time of the last notification\<close>

text \<open>
  Claim C1, as it is worded, says that after a cycle that produced no notification
  \<open>update_state\<close> leaves \<open>last_email_sent\<close> unchanged, also when the cycle started with a
  non-empty list of notification identifiers handed over from before. Entered with such
  a list, to which the cycle has added nothing, \<open>update_state\<close> leaves the list as it is
  and yet \<open>last_email_sent\<close> is no longer what it was: \<open>_update_state_node\<close> tests
  whether the list is non-empty, not whether it has grown.
\<close>

theorem update_state_node_rehydrated_counterexample:
  "sent_notifications (update_state_node 864000000004 rehydrated_state)
     = sent_notifications rehydrated_state
   \<and> last_email_sent (update_state_node 864000000004 rehydrated_state)
       \<noteq> last_email_sent rehydrated_state"
  by (simp add: rehydrated_state_def update_state_node_def)

text \<open>
  Claim C1, amended. \<open>update_state\<close> sets \<open>last_email_sent\<close> to the current time if and only
  if \<open>sent_notifications\<close> is non-empty when the stage is entered, whether its entries
  were there when the cycle started or were gained since, and leaves it unchanged
  otherwise; it never changes \<open>sent_notifications\<close>. For a cycle that started with the
  state of \<open>create_initial_state\<close>, whose list is empty, \<open>last_email_sent\<close> is set exactly
  when the cycle gained an entry.
\<close>

theorem update_state_node_last_email_sent:
  "last_email_sent (update_state_node now s) =
     (if sent_notifications s = [] then last_email_sent s else Some now)
   \<and> sent_notifications (update_state_node now s) = sent_notifications s
   \<and> last_email_sent
         (update_state_node now (s\<lparr> sent_notifications := sent_notifications s @ gained \<rparr>)) =
       (if sent_notifications s = [] \<and> gained = [] then last_email_sent s else Some now)
   \<and> last_email_sent
         (update_state_node now
            (create_initial_state cfg\<lparr> sent_notifications :=
               sent_notifications (create_initial_state cfg) @ gained \<rparr>)) =
       (if gained = [] then None else Some now)"
  by (simp add: update_state_node_def create_initial_state_def)

theorem update_state_node_last_email_sent_witness:
  "last_email_sent (update_state_node 864000000004 rehydrated_state) = Some 864000000004
   \<and> sent_notifications (update_state_node 864000000004 rehydrated_state)
       = [''issue_alert_2024-01-01T00:00:00'']
   \<and> last_email_sent (update_state_node 864000000004 test_state) = None
   \<and> sent_notifications (update_state_node 864000000004 test_state) = []
   \<and> last_email_sent (update_state_node 864000000004
        (test_state\<lparr> sent_notifications := [''issue_alert_2024-01-11T00:00:00''] \<rparr>))
       = Some 864000000004"
  using update_state_node_last_email_sent
          [where now = 864000000004 and s = rehydrated_state and gained = "[]"
             and cfg = test_config]
        update_state_node_last_email_sent
          [where now = 864000000004 and s = test_state
             and gained = "[''issue_alert_2024-01-11T00:00:00'']" and cfg = test_config]
  by (simp add: rehydrated_state_def test_state_def create_initial_state_def)

section \<open>The exit status of a single run\<close>




end
